theory Spec2Isabelle
  imports Main "HOL-Library.Multiset"
begin

section \<open>The data model of \<^verbatim>\<open>range_tree.py\<close>\<close>

text \<open>
  Coordinates are Python numbers. The only operations the tree code applies to them are
  the comparisons of \<^verbatim>\<open>list.sort\<close>, \<^verbatim>\<open>sorted\<close> and \<^verbatim>\<open><=\<close>, so a coordinate is
  any linearly ordered type \<open>'a\<close> (Python's unbounded integers are the instance \<open>int\<close>).
  A float NaN is outside every linear order and is not modelled.

  \<^verbatim>\<open>class Point\<close> has the attributes \<^verbatim>\<open>x\<close> and \<^verbatim>\<open>y\<close>; \<^verbatim>\<open>class Node\<close> pairs a
  \<^verbatim>\<open>feature_point\<close> with a \<^verbatim>\<open>real_point\<close>.
\<close>

datatype 'a Point = Point (x_coord: 'a) (y_coord: 'a)

datatype 'a Node = Node (feature_point: "'a Point") (real_point: "'a Point")

text \<open>
  A tree is \<^verbatim>\<open>None\<close> or a dict. The dict of \<^verbatim>\<open>_build_tree_on_y\<close> has the keys
  \<^verbatim>\<open>'point'\<close>, \<^verbatim>\<open>'left'\<close>, \<^verbatim>\<open>'right'\<close>, \<^verbatim>\<open>'voronoi'\<close>; the dict of
  \<^verbatim>\<open>_build_tree_on_x\<close> has, in this order, \<^verbatim>\<open>'point'\<close>, \<^verbatim>\<open>'left'\<close>, \<^verbatim>\<open>'right'\<close>,
  \<^verbatim>\<open>'range_tree_on_y'\<close>, \<^verbatim>\<open>'points_sorted_by_y'\<close>, \<^verbatim>\<open>'voronoi'\<close>. The type \<open>'d\<close> is
  the diagram object that \<^verbatim>\<open>scipy.spatial.Voronoi\<close> returns.
\<close>

datatype ('a, 'd) ytree =
    YNone
  | YNode (ypoint: "'a Node") (yleft: "('a, 'd) ytree") (yright: "('a, 'd) ytree")
      (yvoronoi: "'d option")

datatype ('a, 'd) xtree =
    XNone
  | XNode (point: "'a Node") (left: "('a, 'd) xtree") (right: "('a, 'd) xtree")
      (range_tree_on_y: "('a, 'd) ytree") (points_sorted_by_y: "'a Node list")
      (voronoi: "'d option")

text \<open>
  \<^verbatim>\<open>scipy.spatial.Voronoi\<close> is not part of the repository: it is a parameter of the
  model, a function from the list of coordinate pairs to either a raised exception
  (\<open>Inl\<close>) or a diagram (\<open>Inr\<close>).
\<close>

type_synonym ('a, 'e, 'd) Voronoi = "('a \<times> 'a) list \<Rightarrow> 'e + 'd"

section \<open>Construction\<close>

text \<open>The sort keys \<^verbatim>\<open>lambda p: p.feature_point.x\<close> and \<^verbatim>\<open>lambda p: p.feature_point.y\<close>.\<close>

definition key_x :: "'a Node \<Rightarrow> 'a" where
  "key_x p = x_coord (feature_point p)"

definition key_y :: "'a Node \<Rightarrow> 'a" where
  "key_y p = y_coord (feature_point p)"

text \<open>
  \<^verbatim>\<open>_compute_voronoi\<close>: \<^verbatim>\<open>None\<close> below four points; otherwise the list of real-space
  pairs goes to \<^verbatim>\<open>Voronoi\<close>, and \<^verbatim>\<open>except Exception\<close> turns a raised exception into
  \<^verbatim>\<open>None\<close> (after printing a message, which the model leaves out).
\<close>

definition compute_voronoi :: "('a, 'e, 'd) Voronoi \<Rightarrow> 'a Node list \<Rightarrow> 'd option" where
  "compute_voronoi Voronoi points =
     (if length points < 4 then None
      else
        (let real_points_as_float =
               map (\<lambda>p. (x_coord (real_point p), y_coord (real_point p))) points
         in case Voronoi real_points_as_float of
              Inl e \<Rightarrow> None
            | Inr d \<Rightarrow> Some d))"

text \<open>
  \<^verbatim>\<open>points.sort(key=...)\<close> sorts the list object it is called on, in place and stably;
  \<open>sort_key\<close> is the stable sort of HOL. A builder therefore returns two things: the
  node, and the contents of the list object \<^verbatim>\<open>points\<close> when the call returns. The slices
  \<^verbatim>\<open>points[:mid]\<close> and \<^verbatim>\<open>points[mid + 1:]\<close> are fresh lists, so what the recursive
  calls do to them is dropped (\<open>fst\<close>).
\<close>

function build_tree_on_y ::
  "('a::linorder, 'e, 'd) Voronoi \<Rightarrow> 'a Node list \<Rightarrow> ('a, 'd) ytree \<times> 'a Node list"
where
  "build_tree_on_y Voronoi points =
     (if points = [] then (YNone, points)
      else
        (let points' = sort_key key_y points;
             mid = length points' div 2
         in (YNode (points' ! mid)
               (fst (build_tree_on_y Voronoi (take mid points')))
               (fst (build_tree_on_y Voronoi (drop (mid + 1) points')))
               (compute_voronoi Voronoi points'),
             points')))"
  by pat_completeness auto
termination
  by (relation "measure (\<lambda>(V, points). length points)") (auto simp: less_Suc_eq_le)

text \<open>
  In \<^verbatim>\<open>_build_tree_on_x\<close> the dict display is evaluated entry by entry: the median and
  the two children come from the list sorted on x; then \<^verbatim>\<open>_build_tree_on_y(points)\<close>
  sorts the same list object on y, and \<^verbatim>\<open>sorted(points, ...)\<close> and
  \<^verbatim>\<open>_compute_voronoi(points)\<close> read it in that state.
\<close>

function build_tree_on_x ::
  "('a::linorder, 'e, 'd) Voronoi \<Rightarrow> 'a Node list \<Rightarrow> ('a, 'd) xtree \<times> 'a Node list"
where
  "build_tree_on_x Voronoi points =
     (if points = [] then (XNone, points)
      else
        (let points' = sort_key key_x points;
             mid = length points' div 2;
             median = points' ! mid;
             l = fst (build_tree_on_x Voronoi (take mid points'));
             r = fst (build_tree_on_x Voronoi (drop (mid + 1) points'));
             ty = build_tree_on_y Voronoi points';
             points'' = snd ty
         in (XNode median l r (fst ty) (sort_key key_y points'')
               (compute_voronoi Voronoi points''),
             points'')))"
  by pat_completeness auto
termination
  by (relation "measure (\<lambda>(V, points). length points)") (auto simp: less_Suc_eq_le)

declare build_tree_on_y.simps [simp del] build_tree_on_x.simps [simp del]

text \<open>\<^verbatim>\<open>RangeTree2D.__init__\<close> keeps the node as \<^verbatim>\<open>self.root\<close>.\<close>

definition RangeTree2D ::
  "('a::linorder, 'e, 'd) Voronoi \<Rightarrow> 'a Node list \<Rightarrow> ('a, 'd) xtree" where
  "RangeTree2D Voronoi points = fst (build_tree_on_x Voronoi points)"

section \<open>Query\<close>

text \<open>
  \<^verbatim>\<open>_query_tree\<close> appends to the list object \<^verbatim>\<open>visited_nodes\<close> and returns nothing;
  the model returns the contents of that list when the call returns.
\<close>

fun query_tree ::
  "('a::linorder, 'd) xtree \<Rightarrow> 'a Node \<Rightarrow> ('a, 'd) xtree list \<Rightarrow> ('a, 'd) xtree list"
where
  "query_tree XNone query_point visited_nodes = visited_nodes"
| "query_tree (XNode p l r ty sy v) query_point visited_nodes =
     (let visited_nodes' = visited_nodes @ [XNode p l r ty sy v]
      in if x_coord (feature_point query_point) \<le> x_coord (feature_point p)
         then query_tree l query_point visited_nodes'
         else query_tree r query_point visited_nodes')"

text \<open>
  \<^verbatim>\<open>_visualize_voronoi\<close> plots and prints. The model records each call by its three
  arguments. \<^verbatim>\<open>query\<close> calls it once per visited node, in the order of the list, and
  has no \<^verbatim>\<open>return\<close> statement (the one it had is commented out): its value is Python's
  \<^verbatim>\<open>None\<close>, the \<open>None\<close> of the field \<open>returned\<close>.
\<close>

type_synonym ('a, 'd) visualize_call = "'d option \<times> 'a Node list \<times> 'a Node"

datatype ('a, 'd) query_outcome =
  Query_outcome (visualized: "('a, 'd) visualize_call list")
    (returned: "('a, 'd) xtree list option")

definition query :: "('a::linorder, 'd) xtree \<Rightarrow> 'a Node \<Rightarrow> ('a, 'd) query_outcome" where
  "query root query_point =
     (let visited_nodes = query_tree root query_point []
      in Query_outcome
           (map (\<lambda>node. (voronoi node, points_sorted_by_y node, query_point)) visited_nodes)
           None)"

section \<open>The entry point\<close>

text \<open>
  The script under \<^verbatim>\<open>__main__\<close> runs \<^verbatim>\<open>for i in range(len(feature_space))\<close>, reads
  \<^verbatim>\<open>feature_space[i]\<close> and \<^verbatim>\<open>real_space[i]\<close> and appends a \<^verbatim>\<open>Node\<close>. Reading a list
  past its end raises \<^verbatim>\<open>IndexError\<close>, which nothing catches. The two lists are
  parameters of the model.
\<close>

datatype py_error = IndexError

function append_points ::
  "('a \<times> 'a) list \<Rightarrow> ('a \<times> 'a) list \<Rightarrow> nat \<Rightarrow> 'a Node list \<Rightarrow> py_error + 'a Node list"
where
  "append_points feature_space real_space i points =
     (if i < length feature_space then
        (if i < length real_space then
           append_points feature_space real_space (i + 1)
             (points @
                [Node (Point (fst (feature_space ! i)) (snd (feature_space ! i)))
                   (Point (fst (real_space ! i)) (snd (real_space ! i)))])
         else Inl IndexError)
      else Inr points)"
  by pat_completeness auto
termination
  by (relation "measure (\<lambda>(fs, rs, i, points). length fs - i)") auto

declare append_points.simps [simp del]

definition main_tree ::
  "('a::linorder, 'e, 'd) Voronoi \<Rightarrow> ('a \<times> 'a) list \<Rightarrow> ('a \<times> 'a) list \<Rightarrow>
     py_error + ('a, 'd) xtree" where
  "main_tree Voronoi feature_space real_space =
     (case append_points feature_space real_space 0 [] of
        Inl e \<Rightarrow> Inl e
      | Inr points \<Rightarrow> Inr (RangeTree2D Voronoi points))"

section \<open>Observations on trees\<close>

text \<open>
  The nodes of a primary tree and of a secondary tree, root first. Each is a dict, so
  \<open>point\<close> and \<open>ypoint\<close> read its median point.
\<close>

fun nodes :: "('a, 'd) xtree \<Rightarrow> ('a, 'd) xtree list" where
  "nodes XNone = []"
| "nodes (XNode p l r ty sy v) = XNode p l r ty sy v # nodes l @ nodes r"

fun ynodes :: "('a, 'd) ytree \<Rightarrow> ('a, 'd) ytree list" where
  "ynodes YNone = []"
| "ynodes (YNode p l r v) = YNode p l r v # ynodes l @ ynodes r"

text \<open>
  \<open>levels\<close> counts the nodes on a longest path from the root down; the height of a tree
  counts the edges of that path.
\<close>

fun levels :: "('a, 'd) xtree \<Rightarrow> nat" where
  "levels XNone = 0"
| "levels (XNode p l r ty sy v) = Suc (max (levels l) (levels r))"

definition height :: "('a, 'd) xtree \<Rightarrow> nat" where
  "height t = levels t - 1"

text \<open>
  The visited path in the words of the specification: stop at an absent node; otherwise
  the current node comes first, followed by the path from the left child when the
  target's feature x is at most the median's, from the right child otherwise.
\<close>

fun visited_path :: "('a::linorder, 'd) xtree \<Rightarrow> 'a Node \<Rightarrow> ('a, 'd) xtree list" where
  "visited_path XNone target = []"
| "visited_path (XNode p l r ty sy v) target =
     XNode p l r ty sy v #
       (if key_x target \<le> key_x p then visited_path l target else visited_path r target)"



section \<open>Sample inputs\<close>

text \<open>
  Two stand-ins for \<^verbatim>\<open>scipy.spatial.Voronoi\<close>: one that raises on every input, and one
  that returns the coordinate list it was given as the diagram. \<open>sample_points\<close> are the
  first five points of the script's \<^verbatim>\<open>feature_space\<close> and \<^verbatim>\<open>real_space\<close>, \<open>sample_two\<close>
  the first two.
\<close>

definition Voronoi_raises :: "(int, unit, (int \<times> int) list) Voronoi" where
  "Voronoi_raises cs = Inl ()"

definition Voronoi_echo :: "(int, unit, (int \<times> int) list) Voronoi" where
  "Voronoi_echo cs = Inr cs"

definition sample_points :: "int Node list" where
  "sample_points =
     [Node (Point 0 0) (Point 1 2), Node (Point 2 1) (Point 3 5), Node (Point 3 4) (Point 4 1),
      Node (Point 1 6) (Point 6 7), Node (Point (- 1) 5) (Point 7 3)]"

definition sample_two :: "int Node list" where
  "sample_two = [Node (Point 0 0) (Point 1 2), Node (Point 2 1) (Point 3 5)]"


section \<open>Unfolding the builders\<close>

lemma build_tree_on_y_Nil: "build_tree_on_y V [] = (YNone, [])"
  by (simp add: build_tree_on_y.simps)

lemma build_tree_on_x_Nil: "build_tree_on_x V [] = (XNone, [])"
  by (simp add: build_tree_on_x.simps)

lemma snd_build_tree_on_y: "snd (build_tree_on_y V ps) = sort_key key_y ps"
  by (subst build_tree_on_y.simps) (simp add: Let_def)

lemma snd_build_tree_on_x: "snd (build_tree_on_x V ps) = sort_key key_y (sort_key key_x ps)"
  by (subst build_tree_on_x.simps) (simp add: Let_def snd_build_tree_on_y)

lemma sort_key_twice: "sort_key f (sort_key f xs) = sort_key f xs"
  by (simp add: sort_key_id_if_sorted)

lemma build_tree_on_x_Node:
  "ps \<noteq> [] \<Longrightarrow>
   fst (build_tree_on_x V ps) =
     XNode (sort_key key_x ps ! (length ps div 2))
       (fst (build_tree_on_x V (take (length ps div 2) (sort_key key_x ps))))
       (fst (build_tree_on_x V (drop (length ps div 2 + 1) (sort_key key_x ps))))
       (fst (build_tree_on_y V (sort_key key_x ps)))
       (sort_key key_y (sort_key key_x ps))
       (compute_voronoi V (sort_key key_y (sort_key key_x ps)))"
  by (subst build_tree_on_x.simps) (simp add: Let_def snd_build_tree_on_y sort_key_twice)

lemma build_tree_on_y_Node:
  "ps \<noteq> [] \<Longrightarrow>
   fst (build_tree_on_y V ps) =
     YNode (sort_key key_y ps ! (length ps div 2))
       (fst (build_tree_on_y V (take (length ps div 2) (sort_key key_y ps))))
       (fst (build_tree_on_y V (drop (length ps div 2 + 1) (sort_key key_y ps))))
       (compute_voronoi V (sort_key key_y ps))"
  by (subst build_tree_on_y.simps) (simp add: Let_def)

section \<open>Splitting a list at its middle\<close>

lemma split_at_mid:
  "xs \<noteq> [] \<Longrightarrow>
   xs = take (length xs div 2) xs @ xs ! (length xs div 2) # drop (length xs div 2 + 1) xs"
  using id_take_nth_drop[of "length xs div 2" xs] by simp

lemma mset_split_at_mid:
  assumes "xs \<noteq> []"
  shows "mset (take (length xs div 2) xs) + {#xs ! (length xs div 2)#} +
           mset (drop (length xs div 2 + 1) xs) = mset xs"
proof -
  have "mset xs =
      mset (take (length xs div 2) xs @ xs ! (length xs div 2) # drop (length xs div 2 + 1) xs)"
    using split_at_mid[OF assms] by simp
  then show ?thesis by simp
qed

lemma mset_split_sorted:
  assumes "ps \<noteq> []"
  shows "mset (take (length ps div 2) (sort_key f ps)) + {#sort_key f ps ! (length ps div 2)#} +
           mset (drop (length ps div 2 + 1) (sort_key f ps)) = mset ps"
proof -
  have "sort_key f ps \<noteq> []" using assms by (metis length_0_conv length_sort)
  from mset_split_at_mid[OF this] show ?thesis by simp
qed



section \<open>The points of a built tree\<close>

lemma mset_points_build_x:
  "mset (map point (nodes (fst (build_tree_on_x V ps)))) = mset ps"
proof (induction "length ps" arbitrary: ps rule: less_induct)
  case less
  show ?case
  proof (cases "ps = []")
    case True
    then show ?thesis by (simp add: build_tree_on_x_Nil)
  next
    case False
    let ?s = "sort_key key_x ps"
    let ?m = "length ps div 2"
    have l: "mset (map point (nodes (fst (build_tree_on_x V (take ?m ?s))))) = mset (take ?m ?s)"
      using False by (intro less) simp
    have r: "mset (map point (nodes (fst (build_tree_on_x V (drop (?m + 1) ?s))))) =
        mset (drop (?m + 1) ?s)"
      using False by (intro less) simp
    show ?thesis
      using l r mset_split_sorted[OF False, of key_x] by (simp add: build_tree_on_x_Node False)
  qed
qed

lemma mset_points_build_y:
  "mset (map ypoint (ynodes (fst (build_tree_on_y V ps)))) = mset ps"
proof (induction "length ps" arbitrary: ps rule: less_induct)
  case less
  show ?case
  proof (cases "ps = []")
    case True
    then show ?thesis by (simp add: build_tree_on_y_Nil)
  next
    case False
    let ?s = "sort_key key_y ps"
    let ?m = "length ps div 2"
    have l: "mset (map ypoint (ynodes (fst (build_tree_on_y V (take ?m ?s))))) = mset (take ?m ?s)"
      using False by (intro less) simp
    have r: "mset (map ypoint (ynodes (fst (build_tree_on_y V (drop (?m + 1) ?s))))) =
        mset (drop (?m + 1) ?s)"
      using False by (intro less) simp
    show ?thesis
      using l r mset_split_sorted[OF False, of key_y] by (simp add: build_tree_on_y_Node False)
  qed
qed

lemma length_nodes_build_x: "length (nodes (fst (build_tree_on_x V ps))) = length ps"
proof -
  have "size (mset (map point (nodes (fst (build_tree_on_x V ps))))) = size (mset ps)"
    by (simp only: mset_points_build_x)
  then show ?thesis by simp
qed

lemma length_nodes_build_y: "length (ynodes (fst (build_tree_on_y V ps))) = length ps"
proof -
  have "size (mset (map ypoint (ynodes (fst (build_tree_on_y V ps))))) = size (mset ps)"
    by (simp only: mset_points_build_y)
  then show ?thesis by simp
qed



section \<open>Every node of a built tree is the result of a build call\<close>

lemma node_of_build_x:
  "nd \<in> set (nodes (fst (build_tree_on_x V ps))) \<Longrightarrow>
   \<exists>qs. qs \<noteq> [] \<and> nd = fst (build_tree_on_x V qs) \<and> mset qs \<subseteq># mset ps"
proof (induction "length ps" arbitrary: ps rule: less_induct)
  case less
  show ?case
  proof (cases "ps = []")
    case True
    with less.prems show ?thesis by (simp add: build_tree_on_x_Nil)
  next
    case False
    let ?s = "sort_key key_x ps"
    let ?m = "length ps div 2"
    have sub_l: "mset (take ?m ?s) \<subseteq># mset ps"
      using mset_split_sorted[OF False, of key_x] by (metis mset_subset_eq_add_left subset_mset.order_trans)
    have sub_r: "mset (drop (?m + 1) ?s) \<subseteq># mset ps"
      using mset_split_sorted[OF False, of key_x] by (metis mset_subset_eq_add_right)
    from less.prems False consider
        "nd = fst (build_tree_on_x V ps)"
      | "nd \<in> set (nodes (fst (build_tree_on_x V (take ?m ?s))))"
      | "nd \<in> set (nodes (fst (build_tree_on_x V (drop (?m + 1) ?s))))"
      by (auto simp: build_tree_on_x_Node)
    then show ?thesis
    proof cases
      case 1
      then show ?thesis using False by blast
    next
      case 2
      have "length (take ?m ?s) < length ps" using False by simp
      from less.hyps[OF this 2] obtain qs where
        "qs \<noteq> []" "nd = fst (build_tree_on_x V qs)" "mset qs \<subseteq># mset (take ?m ?s)" by blast
      then show ?thesis using subset_mset.order_trans[OF _ sub_l] by blast
    next
      case 3
      have "length (drop (?m + 1) ?s) < length ps" using False by simp
      from less.hyps[OF this 3] obtain qs where
        "qs \<noteq> []" "nd = fst (build_tree_on_x V qs)" "mset qs \<subseteq># mset (drop (?m + 1) ?s)"
        by blast
      then show ?thesis using subset_mset.order_trans[OF _ sub_r] by blast
    qed
  qed
qed

lemma node_of_build_y:
  "nd \<in> set (ynodes (fst (build_tree_on_y V ps))) \<Longrightarrow>
   \<exists>qs. qs \<noteq> [] \<and> nd = fst (build_tree_on_y V qs) \<and> mset qs \<subseteq># mset ps"
proof (induction "length ps" arbitrary: ps rule: less_induct)
  case less
  show ?case
  proof (cases "ps = []")
    case True
    with less.prems show ?thesis by (simp add: build_tree_on_y_Nil)
  next
    case False
    let ?s = "sort_key key_y ps"
    let ?m = "length ps div 2"
    have sub_l: "mset (take ?m ?s) \<subseteq># mset ps"
      using mset_split_sorted[OF False, of key_y]
      by (metis mset_subset_eq_add_left subset_mset.order_trans)
    have sub_r: "mset (drop (?m + 1) ?s) \<subseteq># mset ps"
      using mset_split_sorted[OF False, of key_y] by (metis mset_subset_eq_add_right)
    from less.prems False consider
        "nd = fst (build_tree_on_y V ps)"
      | "nd \<in> set (ynodes (fst (build_tree_on_y V (take ?m ?s))))"
      | "nd \<in> set (ynodes (fst (build_tree_on_y V (drop (?m + 1) ?s))))"
      by (auto simp: build_tree_on_y_Node)
    then show ?thesis
    proof cases
      case 1
      then show ?thesis using False by blast
    next
      case 2
      have "length (take ?m ?s) < length ps" using False by simp
      from less.hyps[OF this 2] obtain qs where
        "qs \<noteq> []" "nd = fst (build_tree_on_y V qs)" "mset qs \<subseteq># mset (take ?m ?s)" by blast
      then show ?thesis using subset_mset.order_trans[OF _ sub_l] by blast
    next
      case 3
      have "length (drop (?m + 1) ?s) < length ps" using False by simp
      from less.hyps[OF this 3] obtain qs where
        "qs \<noteq> []" "nd = fst (build_tree_on_y V qs)" "mset qs \<subseteq># mset (drop (?m + 1) ?s)"
        by blast
      then show ?thesis using subset_mset.order_trans[OF _ sub_r] by blast
    qed
  qed
qed

section \<open>The traversal\<close>

lemma query_tree_visited_path: "query_tree t q acc = acc @ visited_path t q"
  by (induction t arbitrary: acc) (simp_all add: key_x_def Let_def)

lemma length_visited_path_le_levels: "length (visited_path t q) \<le> levels t"
  by (induction t) auto

lemma length_visited_path_le_nodes: "length (visited_path t q) \<le> length (nodes t)"
  by (induction t) auto

lemma length_visited_path_build:
  assumes "ps \<noteq> []"
  shows "length (visited_path (fst (build_tree_on_x V ps)) q) \<le> Suc (length ps div 2)"
proof -
  let ?s = "sort_key key_x ps"
  let ?m = "length ps div 2"
  let ?l = "fst (build_tree_on_x V (take ?m ?s))"
  let ?r = "fst (build_tree_on_x V (drop (?m + 1) ?s))"
  have "length (visited_path ?l q) \<le> length (nodes ?l)"
    by (rule length_visited_path_le_nodes)
  then have l: "length (visited_path ?l q) \<le> ?m"
    by (simp add: length_nodes_build_x)
  have "length (visited_path ?r q) \<le> length (nodes ?r)"
    by (rule length_visited_path_le_nodes)
  then have r: "length (visited_path ?r q) \<le> ?m"
    by (simp add: length_nodes_build_x)
  show ?thesis using l r by (simp add: build_tree_on_x_Node[OF assms])
qed

section \<open>The entry point's loop\<close>

lemma append_points_enough:
  "length fs \<le> length rs \<Longrightarrow>
   append_points fs rs i acc =
     Inr (acc @ map (\<lambda>(f, r). Node (Point (fst f) (snd f)) (Point (fst r) (snd r)))
                  (drop i (zip fs rs)))"
proof (induction "length fs - i" arbitrary: i acc)
  case 0
  then show ?case by (subst append_points.simps) simp
next
  case (Suc k)
  then have i: "i < length fs" "i < length rs" by simp_all
  then have "i < length (zip fs rs)" by simp
  then have d: "drop i (zip fs rs) = (fs ! i, rs ! i) # drop (Suc i) (zip fs rs)"
    by (metis Cons_nth_drop_Suc nth_zip i)
  have "k = length fs - (i + 1)" using Suc.hyps(2) by simp
  from Suc.hyps(1)[OF this Suc.prems] show ?case
    using i d by (subst append_points.simps) simp
qed

lemma append_points_short:
  "length rs < length fs \<Longrightarrow> i \<le> length rs \<Longrightarrow> append_points fs rs i acc = Inl IndexError"
proof (induction "length rs - i" arbitrary: i acc)
  case 0
  then show ?case by (subst append_points.simps) simp
next
  case (Suc k)
  then have i: "i < length fs" "i < length rs" by simp_all
  have "k = length rs - (i + 1)" using Suc.hyps(2) by simp
  from Suc.hyps(1)[OF this Suc.prems(1)] i show ?case
    by (subst append_points.simps) simp
qed

section \<open>Independence from the diagram provider\<close>



section \<open>Search-tree order\<close>



section \<open>The fields of a built node\<close>

lemma build_tree_on_x_fields:
  assumes "qs \<noteq> []"
  shows "points_sorted_by_y (fst (build_tree_on_x V qs)) = sort_key key_y (sort_key key_x qs)"
    and "voronoi (fst (build_tree_on_x V qs)) =
           compute_voronoi V (sort_key key_y (sort_key key_x qs))"
    and "range_tree_on_y (fst (build_tree_on_x V qs)) = fst (build_tree_on_y V (sort_key key_x qs))"
  by (simp_all add: build_tree_on_x_Node[OF assms])

lemma build_tree_on_y_voronoi:
  "qs \<noteq> [] \<Longrightarrow> yvoronoi (fst (build_tree_on_y V qs)) = compute_voronoi V (sort_key key_y qs)"
  by (simp add: build_tree_on_y_Node)

lemma compute_voronoi_few: "length ps < 4 \<Longrightarrow> compute_voronoi V ps = None"
  by (simp add: compute_voronoi_def)

section \<open>Building again\<close>



section \<open>The claims of the specification\<close>

text \<open>
  C1 (as amended). \<^verbatim>\<open>query\<close> does not return the visited path: it returns \<^verbatim>\<open>None\<close>. The
  path is what \<^verbatim>\<open>_query_tree\<close> leaves in \<^verbatim>\<open>visited_nodes\<close>: starting at the root it
  stops at an absent node, otherwise appends the current node and descends left when the
  target's feature x is at most the median's feature x, else right; \<^verbatim>\<open>query\<close> hands the
  nodes of that path, in root-to-leaf order, to \<^verbatim>\<open>_visualize_voronoi\<close>.
\<close>

theorem C1_query_visits_path:
  "query_tree root target [] = visited_path root target \<and>
   visualized (query root target) =
     map (\<lambda>node. (voronoi node, points_sorted_by_y node, target)) (visited_path root target) \<and>
   returned (query root target) = None"
  by (simp add: query_def query_tree_visited_path)

text \<open>
  C1 as stated fails: on the tree of \<open>sample_two\<close> the value that \<^verbatim>\<open>query\<close> returns is
  not the visited path.
\<close>

theorem C1_query_returns_path_counterexample:
  "returned (query (RangeTree2D Voronoi_echo sample_two) (Node (Point 0 0) (Point 1 2))) \<noteq>
     Some (visited_path (RangeTree2D Voronoi_echo sample_two) (Node (Point 0 0) (Point 1 2)))"
  by (simp add: query_def)

text \<open>
  C2. An empty input yields \<^verbatim>\<open>None\<close>. For a non-empty input of n points the build sorts
  it ascending by feature x (a sorted permutation of the input), takes \<open>mid = n div 2\<close>,
  makes element \<open>mid\<close> of the sorted list the node's median, builds the left child from
  the elements before \<open>mid\<close> and the right child from the elements after \<open>mid\<close>.
\<close>

theorem C2_primary_build_split:
  "fst (build_tree_on_x V []) = XNone \<and>
   (points \<noteq> [] \<longrightarrow>
      (let sorted_points = sort_key key_x points; mid = length points div 2
       in sorted (map key_x sorted_points) \<and> mset sorted_points = mset points \<and>
          fst (build_tree_on_x V points) \<noteq> XNone \<and>
          point (fst (build_tree_on_x V points)) = sorted_points ! mid \<and>
          left (fst (build_tree_on_x V points)) =
            fst (build_tree_on_x V (take mid sorted_points)) \<and>
          right (fst (build_tree_on_x V points)) =
            fst (build_tree_on_x V (drop (mid + 1) sorted_points))))"
  by (simp add: build_tree_on_x_Nil build_tree_on_x_Node Let_def)

theorem C2_primary_build_split_witness:
  "sample_points \<noteq> [] \<and>
   point (fst (build_tree_on_x Voronoi_echo sample_points)) = Node (Point 1 6) (Point 6 7) \<and>
   left (fst (build_tree_on_x Voronoi_echo sample_points)) =
     fst (build_tree_on_x Voronoi_echo
       [Node (Point (- 1) 5) (Point 7 3), Node (Point 0 0) (Point 1 2)]) \<and>
   right (fst (build_tree_on_x Voronoi_echo sample_points)) =
     fst (build_tree_on_x Voronoi_echo
       [Node (Point 2 1) (Point 3 5), Node (Point 3 4) (Point 4 1)])"
proof -
  have ne: "sample_points \<noteq> []"
    by (simp add: sample_points_def)
  have s: "sort_key key_x sample_points =
      [Node (Point (- 1) 5) (Point 7 3), Node (Point 0 0) (Point 1 2),
       Node (Point 1 6) (Point 6 7), Node (Point 2 1) (Point 3 5),
       Node (Point 3 4) (Point 4 1)]"
    by (simp add: sample_points_def key_x_def)
  have m: "length sample_points div 2 = 2"
    by (simp add: sample_points_def)
  show ?thesis
    using C2_primary_build_split [of Voronoi_echo sample_points] ne
    by (simp add: Let_def s m)
qed

text \<open>
  C3 (as amended). The entry point has no length check and no
  \<^verbatim>\<open>MismatchedInputLengths\<close>. When the real-space list is at least as long as the
  feature-space list, no error is signalled and the tree is built from the pairs at the
  indices of the feature-space list (further real-space entries are never read). When the
  real-space list is shorter, \<^verbatim>\<open>IndexError\<close> is raised and no tree is built.
\<close>

theorem C3_entry_point_lengths:
  "(length feature_space \<le> length real_space \<longrightarrow>
      main_tree V feature_space real_space =
        Inr (RangeTree2D V
          (map (\<lambda>(f, r). Node (Point (fst f) (snd f)) (Point (fst r) (snd r)))
             (zip feature_space real_space)))) \<and>
   (length real_space < length feature_space \<longrightarrow>
      main_tree V feature_space real_space = Inl IndexError)"
  by (simp add: main_tree_def append_points_enough append_points_short)

theorem C3_entry_point_lengths_witness:
  "length [(0::int, 0::int)] \<le> length [(1::int, 2::int), (3, 5)] \<and>
   main_tree Voronoi_echo [(0, 0)] [(1, 2), (3, 5)] =
     Inr (RangeTree2D Voronoi_echo [Node (Point 0 0) (Point 1 2)]) \<and>
   length [(1::int, 2::int)] < length [(0::int, 0::int), (2, 1)] \<and>
   main_tree Voronoi_echo [(0, 0), (2, 1)] [(1, 2)] = Inl IndexError"
  using C3_entry_point_lengths [of "[(0, 0)]" "[(1, 2), (3, 5)]" Voronoi_echo]
    C3_entry_point_lengths [of "[(0, 0), (2, 1)]" "[(1, 2)]" Voronoi_echo]
  by simp

text \<open>
  C3 as stated fails: with one feature-space pair and two real-space pairs the entry
  point signals nothing and builds a tree of one node.
\<close>

theorem C3_mismatched_lengths_counterexample:
  "length [(0::int, 0::int)] \<noteq> length [(1::int, 2::int), (3, 5)] \<and>
   main_tree Voronoi_echo [(0, 0)] [(1, 2), (3, 5)] =
     Inr (XNode (Node (Point 0 0) (Point 1 2)) XNone XNone
            (YNode (Node (Point 0 0) (Point 1 2)) YNone YNone None)
            [Node (Point 0 0) (Point 1 2)] None)"
  by code_simp

text \<open>
  C4 (as amended). Building sorts the caller's list in place. When \<^verbatim>\<open>_build_tree_on_x\<close>
  returns, the list holds the same points, stably sorted by feature x and then stably
  sorted by feature y; when \<^verbatim>\<open>_build_tree_on_y\<close> returns, the same points stably sorted
  by feature y. No point is added or removed.
\<close>

theorem C4_build_reorders_input:
  "snd (build_tree_on_x V points) = sort_key key_y (sort_key key_x points) \<and>
   snd (build_tree_on_y V points) = sort_key key_y points \<and>
   mset (snd (build_tree_on_x V points)) = mset points \<and>
   mset (snd (build_tree_on_y V points)) = mset points"
  by (simp add: snd_build_tree_on_x snd_build_tree_on_y)

text \<open>C4 as stated fails: after the build, \<open>sample_points\<close> is in another order.\<close>

theorem C4_input_unchanged_counterexample:
  "snd (build_tree_on_x Voronoi_echo sample_points) \<noteq> sample_points"
  by code_simp

text \<open>
  C5 (as amended). For a tree of height h the traversal visits at most h + 1 nodes, and
  for a tree built from n > 2 points it visits strictly fewer than n nodes.
\<close>

theorem C5_traversal_bound:
  "length (query_tree t target []) \<le> height t + 1 \<and>
   (2 < length points \<longrightarrow>
      length (query_tree (RangeTree2D V points) target []) < length points)"
proof
  have "length (visited_path t target) \<le> levels t"
    by (rule length_visited_path_le_levels)
  then show "length (query_tree t target []) \<le> height t + 1"
    by (simp add: query_tree_visited_path height_def)
next
  show "2 < length points \<longrightarrow>
      length (query_tree (RangeTree2D V points) target []) < length points"
  proof
    assume n: "2 < length points"
    then have "points \<noteq> []" by auto
    from length_visited_path_build[OF this, of V target] n
    show "length (query_tree (RangeTree2D V points) target []) < length points"
      by (simp add: query_tree_visited_path RangeTree2D_def)
  qed
qed

theorem C5_traversal_bound_witness:
  "2 < length sample_points \<and>
   length (query_tree (RangeTree2D Voronoi_echo sample_points) (Node (Point 4 6) (Point 4 6)) [])
     < length sample_points"
proof -
  have n: "2 < length sample_points"
    by (simp add: sample_points_def)
  then show ?thesis
    using C5_traversal_bound [of "RangeTree2D Voronoi_echo sample_points"
        "Node (Point 4 6) (Point 4 6)" sample_points Voronoi_echo]
    by simp
qed

text \<open>
  C5 as stated fails for n = 2: the tree of \<open>sample_two\<close> has its second point at the
  root and its first point as the left child, and a target at the first point visits both.
\<close>

theorem C5_two_points_counterexample:
  "1 < length sample_two \<and>
   \<not> length (query_tree (RangeTree2D Voronoi_echo sample_two) (Node (Point 0 0) (Point 1 2)) [])
       < length sample_two"
  by code_simp

text \<open>
  C6. The primary tree built from n points has exactly n nodes, and the median points of
  its nodes are, as a multiset, the input points: each input point is in exactly one node.
\<close>

theorem C6_node_count:
  "length (nodes (RangeTree2D V points)) = length points \<and>
   mset (map point (nodes (RangeTree2D V points))) = mset points"
  using length_nodes_build_x [of V points] mset_points_build_x [of V points]
  by (simp only: RangeTree2D_def)

text \<open>
  C7. Every primary node of a built tree is the result of the build call on some
  non-empty subset of the input, and its \<^verbatim>\<open>points_sorted_by_y\<close> holds exactly the points
  of that subset (as many as the subset, and as many as the node's subtree has nodes), in
  non-decreasing order of feature y.
\<close>

theorem C7_points_sorted_by_y:
  "nd \<in> set (nodes (RangeTree2D V points)) \<Longrightarrow>
   \<exists>qs. qs \<noteq> [] \<and> mset qs \<subseteq># mset points \<and> nd = fst (build_tree_on_x V qs) \<and>
     mset (points_sorted_by_y nd) = mset qs \<and>
     length (points_sorted_by_y nd) = length qs \<and>
     length (points_sorted_by_y nd) = length (nodes nd) \<and>
     sorted (map key_y (points_sorted_by_y nd))"
proof -
  assume "nd \<in> set (nodes (RangeTree2D V points))"
  then obtain qs where qs: "qs \<noteq> []" "nd = fst (build_tree_on_x V qs)" "mset qs \<subseteq># mset points"
    using node_of_build_x[of nd V points] by (auto simp: RangeTree2D_def)
  have p: "points_sorted_by_y nd = sort_key key_y (sort_key key_x qs)"
    using qs by (simp add: build_tree_on_x_fields)
  have "mset (points_sorted_by_y nd) = mset qs \<and>
     length (points_sorted_by_y nd) = length qs \<and>
     length (points_sorted_by_y nd) = length (nodes nd) \<and>
     sorted (map key_y (points_sorted_by_y nd))"
    unfolding p by (simp add: qs(2) length_nodes_build_x)
  with qs show ?thesis by blast
qed

theorem C7_points_sorted_by_y_witness:
  "left (RangeTree2D Voronoi_echo sample_points)
     \<in> set (nodes (RangeTree2D Voronoi_echo sample_points)) \<and>
   points_sorted_by_y (left (RangeTree2D Voronoi_echo sample_points)) =
     [Node (Point 0 0) (Point 1 2), Node (Point (- 1) 5) (Point 7 3)] \<and>
   sorted (map key_y (points_sorted_by_y (left (RangeTree2D Voronoi_echo sample_points)))) \<and>
   length (points_sorted_by_y (left (RangeTree2D Voronoi_echo sample_points))) =
     length (nodes (left (RangeTree2D Voronoi_echo sample_points)))"
proof -
  have m: "left (RangeTree2D Voronoi_echo sample_points)
     \<in> set (nodes (RangeTree2D Voronoi_echo sample_points))"
    by code_simp
  have p: "points_sorted_by_y (left (RangeTree2D Voronoi_echo sample_points)) =
     [Node (Point 0 0) (Point 1 2), Node (Point (- 1) 5) (Point 7 3)]"
    by code_simp
  from C7_points_sorted_by_y [OF m] m p show ?thesis by metis
qed

text \<open>
  C8. \<^verbatim>\<open>_compute_voronoi\<close> returns \<^verbatim>\<open>None\<close> for fewer than four points, and returns
  \<^verbatim>\<open>None\<close> when \<^verbatim>\<open>Voronoi\<close> raises. So every primary node whose subset has fewer
  than four points, and every node of its secondary tree whose subset has fewer than four
  points, has the diagram \<^verbatim>\<open>None\<close>. The size of a node's subset is the number of nodes
  of its subtree.
\<close>

theorem C8_diagram_gating:
  "(length qs < 4 \<longrightarrow> compute_voronoi V qs = None) \<and>
   (V (map (\<lambda>p. (x_coord (real_point p), y_coord (real_point p))) qs) = Inl e \<longrightarrow>
      compute_voronoi V qs = None) \<and>
   (nd \<in> set (nodes (RangeTree2D V points)) \<and> length (nodes nd) < 4 \<longrightarrow>
      voronoi nd = None) \<and>
   (nd \<in> set (nodes (RangeTree2D V points)) \<and> yn \<in> set (ynodes (range_tree_on_y nd)) \<and>
      length (ynodes yn) < 4 \<longrightarrow> yvoronoi yn = None)"
proof (intro conjI impI)
  show "length qs < 4 \<Longrightarrow> compute_voronoi V qs = None"
    by (rule compute_voronoi_few)
  show "V (map (\<lambda>p. (x_coord (real_point p), y_coord (real_point p))) qs) = Inl e \<Longrightarrow>
      compute_voronoi V qs = None"
    by (simp add: compute_voronoi_def)
  show "voronoi nd = None"
    if "nd \<in> set (nodes (RangeTree2D V points)) \<and> length (nodes nd) < 4"
  proof -
    from that obtain ps where ps: "ps \<noteq> []" "nd = fst (build_tree_on_x V ps)"
      using node_of_build_x[of nd V points] by (auto simp: RangeTree2D_def)
    with that have "length ps < 4" by (simp add: length_nodes_build_x)
    then show ?thesis
      using ps by (simp add: build_tree_on_x_fields compute_voronoi_few)
  qed
  show "yvoronoi yn = None"
    if "nd \<in> set (nodes (RangeTree2D V points)) \<and> yn \<in> set (ynodes (range_tree_on_y nd)) \<and>
      length (ynodes yn) < 4"
  proof -
    from that obtain ps where ps: "ps \<noteq> []" "nd = fst (build_tree_on_x V ps)"
      using node_of_build_x[of nd V points] by (auto simp: RangeTree2D_def)
    with that have "yn \<in> set (ynodes (fst (build_tree_on_y V (sort_key key_x ps))))"
      by (simp add: build_tree_on_x_fields)
    then obtain rs where rs: "rs \<noteq> []" "yn = fst (build_tree_on_y V rs)"
      using node_of_build_y by blast
    with that have "length rs < 4" by (simp add: length_nodes_build_y)
    then show ?thesis
      using rs by (simp add: build_tree_on_y_voronoi compute_voronoi_few)
  qed
qed

theorem C8_diagram_gating_witness:
  "length sample_two < 4 \<and> compute_voronoi Voronoi_echo sample_two = None \<and>
   Voronoi_raises (map (\<lambda>p. (x_coord (real_point p), y_coord (real_point p))) sample_points)
     = Inl () \<and>
   compute_voronoi Voronoi_raises sample_points = None \<and>
   left (RangeTree2D Voronoi_echo sample_points)
     \<in> set (nodes (RangeTree2D Voronoi_echo sample_points)) \<and>
   length (nodes (left (RangeTree2D Voronoi_echo sample_points))) < 4 \<and>
   voronoi (left (RangeTree2D Voronoi_echo sample_points)) = None \<and>
   range_tree_on_y (left (RangeTree2D Voronoi_echo sample_points))
     \<in> set (ynodes (range_tree_on_y (left (RangeTree2D Voronoi_echo sample_points)))) \<and>
   length (ynodes (range_tree_on_y (left (RangeTree2D Voronoi_echo sample_points)))) < 4 \<and>
   yvoronoi (range_tree_on_y (left (RangeTree2D Voronoi_echo sample_points))) = None"
proof -
  have a: "length sample_two < 4"
    by (simp add: sample_two_def)
  have b: "Voronoi_raises
      (map (\<lambda>p. (x_coord (real_point p), y_coord (real_point p))) sample_points) = Inl ()"
    by (simp add: Voronoi_raises_def)
  have c: "left (RangeTree2D Voronoi_echo sample_points)
     \<in> set (nodes (RangeTree2D Voronoi_echo sample_points))"
    by code_simp
  have d: "length (nodes (left (RangeTree2D Voronoi_echo sample_points))) < 4"
    by code_simp
  have e: "range_tree_on_y (left (RangeTree2D Voronoi_echo sample_points))
     \<in> set (ynodes (range_tree_on_y (left (RangeTree2D Voronoi_echo sample_points))))"
    by code_simp
  have f: "length (ynodes (range_tree_on_y (left (RangeTree2D Voronoi_echo sample_points)))) < 4"
    by code_simp
  show ?thesis
    using a b c d e f
      C8_diagram_gating [of sample_two Voronoi_echo "()"
        "left (RangeTree2D Voronoi_echo sample_points)" sample_points
        "range_tree_on_y (left (RangeTree2D Voronoi_echo sample_points))"]
      C8_diagram_gating [of sample_points Voronoi_raises "()"
        "left (RangeTree2D Voronoi_raises sample_points)" sample_points
        "range_tree_on_y (left (RangeTree2D Voronoi_raises sample_points))"]
    by blast
qed






end
